theory Spec2Isabelle
  imports Main
begin

section \<open>JavaScript values\<close>

text \<open>
  The library is TypeScript. Numbers are modelled as \<^typ>\<open>int\<close>: every number the modelled
  code handles is a credit count or a count of milliseconds since the epoch. A property that
  may be missing (\<open>undefined\<close> or \<open>null\<close>) is an \<open>option\<close>. The tests \<open>!x\<close> and
  \<open>x || y\<close> of the source look at truthiness, so the number \<open>0\<close> and the empty string count
  as missing there; the helpers below keep that.
\<close>

definition truthy_num :: "int option \<Rightarrow> bool" where
  "truthy_num v = (case v of None \<Rightarrow> False | Some n \<Rightarrow> n \<noteq> 0)"

definition truthy_str :: "string option \<Rightarrow> bool" where
  "truthy_str v = (case v of None \<Rightarrow> False | Some s \<Rightarrow> s \<noteq> [])"

text \<open>\<open>a || b\<close> where both sides may be missing.\<close>

definition or_str :: "string option \<Rightarrow> string option \<Rightarrow> string option" where
  "or_str a b = (if truthy_str a then a else b)"

text \<open>\<open>a || d\<close> where \<open>d\<close> is a value that is always there.\<close>

definition str_or :: "string option \<Rightarrow> string \<Rightarrow> string" where
  "str_or a d = (case a of None \<Rightarrow> d | Some s \<Rightarrow> if s \<noteq> [] then s else d)"

definition num_or :: "int option \<Rightarrow> int \<Rightarrow> int" where
  "num_or a d = (case a of None \<Rightarrow> d | Some n \<Rightarrow> if n \<noteq> 0 then n else d)"

text \<open>\<open>a || null\<close> and \<open>a ? new Date(a) : undefined\<close>: a falsy value becomes a missing one.\<close>

definition str_or_null :: "string option \<Rightarrow> string option" where
  "str_or_null a = (if truthy_str a then a else None)"

definition num_or_null :: "int option \<Rightarrow> int option" where
  "num_or_null a = (if truthy_num a then a else None)"

text \<open>\<open>a ?? true\<close>.\<close>

definition bool_or_true :: "bool option \<Rightarrow> bool" where
  "bool_or_true a = (case a of None \<Rightarrow> True | Some b \<Rightarrow> b)"

text \<open>
  \<open>new Date(t).toISOString()\<close> throws a \<open>RangeError\<close> when \<open>t\<close> is not a time value a
  \<open>Date\<close> can hold, that is when it is further than 8.64e15 ms from the epoch. The services
  call it on event dates while logging, inside their \<open>try\<close> blocks, so the model needs the test.
\<close>

definition valid_time :: "int \<Rightarrow> bool" where
  "valid_time t = (- 8640000000000000 \<le> t \<and> t \<le> 8640000000000000)"

text \<open>Decimal rendering of a number inside a template literal (\<open>`tx-${Date.now()}`\<close>).\<close>

definition digit_char :: "nat \<Rightarrow> char" where
  "digit_char n = ''0123456789'' ! (n mod 10)"

fun show_nat :: "nat \<Rightarrow> string" where
  "show_nat n = (if n < 10 then [digit_char n] else show_nat (n div 10) @ [digit_char n])"

declare show_nat.simps [simp del]

definition show_int :: "int \<Rightarrow> string" where
  "show_int i = (if i < 0 then CHR ''-'' # show_nat (nat (- i)) else show_nat (nat i))"

text \<open>
  \<open>Array.prototype.findIndex\<close>: the index of the first element that satisfies the test,
  \<open>-1\<close> when there is none.
\<close>

fun findIndex :: "('a \<Rightarrow> bool) \<Rightarrow> 'a list \<Rightarrow> int" where
  "findIndex P [] = - 1"
| "findIndex P (x # xs) =
     (if P x then 0 else (let i = findIndex P xs in if i < 0 then - 1 else i + 1))"


section \<open>Data model\<close>

text \<open>
  The purchase object that expo-iap hands over is untyped in the source (\<open>any\<close>). The record
  has the properties that the modelled code reads; \<open>purchaseId\<close> is the property \<open>id\<close> and
  \<open>renewalInfoIOS_renewalDate\<close> is \<open>renewalInfoIOS?.renewalDate\<close>.
\<close>

record purchase =
  transactionId :: "string option"
  purchaseId :: "string option"
  originalTransactionIdentifierIOS :: "string option"
  productId :: "string option"
  transactionDate :: "int option"
  purchaseDateIOS :: "int option"
  originalTransactionDateIOS :: "int option"
  expirationDateIOS :: "int option"
  renewalInfoIOS_renewalDate :: "int option"
  isAutoRenewing :: "bool option"
  platform :: "string option"
  environmentIOS :: "string option"
  transactionReasonIOS :: "string option"
  reasonIOS :: "string option"

text \<open>
  \<open>UserData\<close> of \<open>types.ts\<close>. The two timestamps are ISO-8601 texts in the source, written
  with \<open>new Date().toISOString()\<close> and read back with \<open>new Date(text).getTime()\<close>; the model
  keeps the instant the text denotes, in milliseconds. Such a text is never empty, so
  \<open>!userData.lastRenewalAt\<close> holds exactly for \<open>None\<close>.
\<close>

record UserData =
  deviceId :: string
  subscriptionPlan :: "string option"
  generationsLeft :: int
  createdAt :: int
  lastRenewalAt :: "int option"

text \<open>\<open>SubscriptionData\<close> of \<open>types.ts\<close>, as the in-memory adapter fills it.\<close>

record SubscriptionData =
  transactionId_sd :: string
  originalTransactionId :: "string option"
  productId_sd :: string
  transactionDate_sd :: int
  expirationDate :: "int option"
  renewalDate :: "int option"
  isActive :: bool
  isCancelled :: bool
  isAutoRenewing_sd :: bool
  platform_sd :: string
  environment :: string
  transactionReason :: string
  purchaseData :: purchase

text \<open>
  The part of \<open>TokenConfig\<close> that the services read. A callback is optional in the source;
  the flag says whether it is configured. A configured callback is taken to return normally,
  and what it does is recorded as an event.
\<close>

record TokenConfig =
  freeTierLimit :: int
  proTierLimit :: int
  onSubscriptionActivated :: bool
  onGenerationUsed :: bool
  onLimitReached :: bool

datatype callback = SubscriptionActivated | GenerationUsed int | LimitReached bool


section \<open>The storage contract\<close>

text \<open>
  \<open>StorageAdapter\<close>: the methods of the interface that the token manager and the renewal
  service call, over an adapter state \<open>'s\<close>. Every method returns its result and the state
  it leaves. \<open>updateSubscriptionPlan\<close> and \<open>upsertSubscription\<close> read the clock in both
  implementations; the reading is their last argument before the state. One invocation of a
  service method is taken to run within one tick of the clock, so that every
  \<open>Date.now()\<close> and \<open>new Date()\<close> in it reads the same value.
\<close>

record 's StorageAdapter =
  getDeviceId :: "'s \<Rightarrow> string \<times> 's"
  initializeUser :: "string \<Rightarrow> int \<Rightarrow> int \<Rightarrow> 's \<Rightarrow> UserData option \<times> 's"
  getUserData :: "string \<Rightarrow> 's \<Rightarrow> UserData option \<times> 's"
  updateGenerations :: "string \<Rightarrow> int \<Rightarrow> 's \<Rightarrow> bool \<times> 's"
  updateSubscriptionPlan :: "string \<Rightarrow> string \<Rightarrow> int \<Rightarrow> int \<Rightarrow> 's \<Rightarrow> bool \<times> 's"
  cancelSubscription :: "string \<Rightarrow> 's \<Rightarrow> bool \<times> 's"
  upsertSubscription :: "string \<Rightarrow> purchase \<Rightarrow> int \<Rightarrow> 's \<Rightarrow> bool \<times> 's"


section \<open>InMemoryAdapter\<close>

record InMemoryAdapter =
  users :: "string \<rightharpoonup> UserData"
  subscriptions :: "string \<rightharpoonup> SubscriptionData list"
  deviceId_mem :: string

definition mem_getDeviceId :: "InMemoryAdapter \<Rightarrow> string \<times> InMemoryAdapter" where
  "mem_getDeviceId s = (deviceId_mem s, s)"

definition mem_initializeUser ::
  "string \<Rightarrow> int \<Rightarrow> int \<Rightarrow> InMemoryAdapter \<Rightarrow> UserData option \<times> InMemoryAdapter" where
  "mem_initializeUser d freeLimit now s =
     (case users s d of
        Some existing \<Rightarrow> (Some existing, s)
      | None \<Rightarrow>
          (let newUser = \<lparr>deviceId = d, subscriptionPlan = None, generationsLeft = freeLimit,
                          createdAt = now, lastRenewalAt = None\<rparr>
           in (Some newUser, s\<lparr>users := (users s)(d \<mapsto> newUser)\<rparr>)))"

definition mem_getUserData :: "string \<Rightarrow> InMemoryAdapter \<Rightarrow> UserData option \<times> InMemoryAdapter" where
  "mem_getUserData d s = (users s d, s)"

definition mem_updateGenerations :: "string \<Rightarrow> int \<Rightarrow> InMemoryAdapter \<Rightarrow> bool \<times> InMemoryAdapter" where
  "mem_updateGenerations d count s =
     (case users s d of
        None \<Rightarrow> (False, s)
      | Some user \<Rightarrow> (True, s\<lparr>users := (users s)(d \<mapsto> user\<lparr>generationsLeft := count\<rparr>)\<rparr>))"

definition mem_updateSubscriptionPlan ::
  "string \<Rightarrow> string \<Rightarrow> int \<Rightarrow> int \<Rightarrow> InMemoryAdapter \<Rightarrow> bool \<times> InMemoryAdapter" where
  "mem_updateSubscriptionPlan d plan generations now s =
     (case users s d of
        None \<Rightarrow> (False, s)
      | Some user \<Rightarrow>
          (True, s\<lparr>users := (users s)(d \<mapsto> user\<lparr>subscriptionPlan := Some plan,
                                                 generationsLeft := generations,
                                                 lastRenewalAt := Some now\<rparr>)\<rparr>))"

definition mem_cancelSubscription :: "string \<Rightarrow> InMemoryAdapter \<Rightarrow> bool \<times> InMemoryAdapter" where
  "mem_cancelSubscription d s =
     (case users s d of
        None \<Rightarrow> (False, s)
      | Some user \<Rightarrow> (True, s\<lparr>users := (users s)(d \<mapsto> user\<lparr>subscriptionPlan := None\<rparr>)\<rparr>))"

text \<open>The transaction id under which the in-memory adapter files a purchase.\<close>

definition mem_transactionId :: "purchase \<Rightarrow> int \<Rightarrow> string" where
  "mem_transactionId p now =
     str_or (or_str (transactionId p) (purchaseId p)) (''tx-'' @ show_int now)"

definition mem_subscriptionData :: "purchase \<Rightarrow> int \<Rightarrow> SubscriptionData" where
  "mem_subscriptionData p now =
     \<lparr>transactionId_sd = mem_transactionId p now,
      originalTransactionId = originalTransactionIdentifierIOS p,
      productId_sd = str_or (productId p) ''unknown'',
      transactionDate_sd = num_or (transactionDate p) now,
      expirationDate = num_or_null (expirationDateIOS p),
      renewalDate = num_or_null (renewalInfoIOS_renewalDate p),
      isActive = True,
      isCancelled = False,
      isAutoRenewing_sd = bool_or_true (isAutoRenewing p),
      platform_sd = ''ios'',
      environment = str_or (environmentIOS p) ''Sandbox'',
      transactionReason = str_or (transactionReasonIOS p) ''PURCHASE'',
      purchaseData = p\<rparr>"

definition mem_userSubscriptions :: "InMemoryAdapter \<Rightarrow> string \<Rightarrow> SubscriptionData list" where
  "mem_userSubscriptions s d = (case subscriptions s d of None \<Rightarrow> [] | Some l \<Rightarrow> l)"

definition mem_upsertSubscription ::
  "string \<Rightarrow> purchase \<Rightarrow> int \<Rightarrow> InMemoryAdapter \<Rightarrow> bool \<times> InMemoryAdapter" where
  "mem_upsertSubscription d p now s =
     (let subscriptionData = mem_subscriptionData p now;
          userSubscriptions = mem_userSubscriptions s d;
          existingIndex =
            findIndex (\<lambda>x. transactionId_sd x = mem_transactionId p now) userSubscriptions;
          updated = (if existingIndex \<ge> 0
                     then userSubscriptions[nat existingIndex := subscriptionData]
                     else userSubscriptions @ [subscriptionData])
      in (True, s\<lparr>subscriptions := (subscriptions s)(d \<mapsto> updated)\<rparr>))"

definition InMemory :: "InMemoryAdapter StorageAdapter" where
  "InMemory =
     \<lparr>getDeviceId = mem_getDeviceId,
      initializeUser = mem_initializeUser,
      getUserData = mem_getUserData,
      updateGenerations = mem_updateGenerations,
      updateSubscriptionPlan = mem_updateSubscriptionPlan,
      cancelSubscription = mem_cancelSubscription,
      upsertSubscription = mem_upsertSubscription\<rparr>"


section \<open>SupabaseAdapter\<close>

text \<open>
  The Supabase client and the database behind it are not part of the library. The model keeps
  the two tables as lists of rows, with the columns the adapter reads and writes, and the
  constraint of the documented schema that matters to the adapter's insert-or-update:
  \<open>transaction_id\<close> is \<open>UNIQUE\<close> in \<open>subscriptions\<close>, and \<open>device_id\<close> is the primary key
  of \<open>user\<close>. A request to the backend can fail. \<open>faults\<close> says, for the requests to come,
  which of them fail (the backend answers with an error and changes nothing); when the list is
  used up, requests succeed.

  Columns of \<open>subscriptions\<close> that only copy a property of the purchase that the record
  \<^typ>\<open>purchase\<close> does not have (\<open>web_order_line_item_id\<close>, \<open>price\<close>, \<open>currency\<close> and the
  like) are left out; \<open>purchase_data\<close> holds the whole purchase.
\<close>

record db_user =
  device_id :: string
  subscription_plan :: "string option"
  generations_left :: int
  created_at :: int
  last_renewal_at :: "int option"

record db_subscription =
  device_id_sub :: string
  transaction_id :: string
  original_transaction_id :: "string option"
  product_id :: string
  platform_sub :: string
  environment_sub :: "string option"
  transaction_reason :: "string option"
  transaction_date :: int
  original_purchase_date :: "int option"
  expiration_date :: "int option"
  renewal_date :: "int option"
  is_active :: bool
  is_cancelled :: bool
  is_auto_renewing :: bool
  purchase_data :: purchase

record SupabaseAdapter =
  user_table :: "db_user list"
  subscriptions_table :: "db_subscription list"
  faults :: "bool list"
  cachedDeviceId :: "string option"
  osBuildId :: "string option"
  osInternalBuildId :: "string option"
  modelId :: "string option"

text \<open>One request to the backend: whether it fails, and the state with that fault used up.\<close>

definition sb_request :: "SupabaseAdapter \<Rightarrow> bool \<times> SupabaseAdapter" where
  "sb_request s = (case faults s of [] \<Rightarrow> (False, s) | f # fs \<Rightarrow> (f, s\<lparr>faults := fs\<rparr>))"

text \<open>\<open>.single()\<close>: the row when the query selects exactly one, an error otherwise.\<close>

definition sb_single :: "'a list \<Rightarrow> 'a option" where
  "sb_single rows = (case rows of [r] \<Rightarrow> Some r | _ \<Rightarrow> None)"

definition mapUserFromDb :: "db_user \<Rightarrow> UserData" where
  "mapUserFromDb dbUser =
     \<lparr>deviceId = device_id dbUser,
      subscriptionPlan = subscription_plan dbUser,
      generationsLeft = generations_left dbUser,
      createdAt = created_at dbUser,
      lastRenewalAt = last_renewal_at dbUser\<rparr>"

definition sb_getDeviceId :: "SupabaseAdapter \<Rightarrow> string \<times> SupabaseAdapter" where
  "sb_getDeviceId s =
     (if truthy_str (cachedDeviceId s) then (str_or (cachedDeviceId s) [], s)
      else
        (let d = str_or (osBuildId s)
                   (str_or (osInternalBuildId s) (str_or (modelId s) ''unknown-device''))
         in (d, s\<lparr>cachedDeviceId := Some d\<rparr>)))"

definition sb_initializeUser ::
  "string \<Rightarrow> int \<Rightarrow> int \<Rightarrow> SupabaseAdapter \<Rightarrow> UserData option \<times> SupabaseAdapter" where
  "sb_initializeUser d freeLimit now s =
     (let (fetchFailed, s1) = sb_request s in
      if fetchFailed then (None, s1)
      else
        (case sb_single (filter (\<lambda>r. device_id r = d) (user_table s1)) of
           Some existingUser \<Rightarrow> (Some (mapUserFromDb existingUser), s1)
         | None \<Rightarrow>
             (let (insertFailed, s2) = sb_request s1;
                  newUser = \<lparr>device_id = d, subscription_plan = None,
                             generations_left = freeLimit, created_at = now,
                             last_renewal_at = None\<rparr>
              in if insertFailed \<or> d \<in> set (map device_id (user_table s2)) then (None, s2)
                 else (Some (mapUserFromDb newUser),
                       s2\<lparr>user_table := user_table s2 @ [newUser]\<rparr>))))"

definition sb_getUserData :: "string \<Rightarrow> SupabaseAdapter \<Rightarrow> UserData option \<times> SupabaseAdapter" where
  "sb_getUserData d s =
     (let (failed, s1) = sb_request s in
      if failed then (None, s1)
      else
        (case sb_single (filter (\<lambda>r. device_id r = d) (user_table s1)) of
           None \<Rightarrow> (None, s1)
         | Some dat \<Rightarrow> (Some (mapUserFromDb dat), s1)))"

text \<open>\<open>.update(...).eq('device_id', deviceId)\<close> on \<open>user\<close>: every matching row is changed.\<close>

definition sb_update_user ::
  "string \<Rightarrow> (db_user \<Rightarrow> db_user) \<Rightarrow> SupabaseAdapter \<Rightarrow> bool \<times> SupabaseAdapter" where
  "sb_update_user d change s =
     (let (failed, s1) = sb_request s in
      if failed then (False, s1)
      else (True, s1\<lparr>user_table :=
                        map (\<lambda>r. if device_id r = d then change r else r) (user_table s1)\<rparr>))"

definition sb_updateGenerations :: "string \<Rightarrow> int \<Rightarrow> SupabaseAdapter \<Rightarrow> bool \<times> SupabaseAdapter" where
  "sb_updateGenerations d count s = sb_update_user d (\<lambda>r. r\<lparr>generations_left := count\<rparr>) s"

definition sb_updateSubscriptionPlan ::
  "string \<Rightarrow> string \<Rightarrow> int \<Rightarrow> int \<Rightarrow> SupabaseAdapter \<Rightarrow> bool \<times> SupabaseAdapter" where
  "sb_updateSubscriptionPlan d plan generations now s =
     sb_update_user d
       (\<lambda>r. r\<lparr>subscription_plan := Some plan, generations_left := generations,
              last_renewal_at := Some now\<rparr>) s"

definition sb_cancelSubscription :: "string \<Rightarrow> SupabaseAdapter \<Rightarrow> bool \<times> SupabaseAdapter" where
  "sb_cancelSubscription d s =
     sb_update_user d (\<lambda>r. r\<lparr>subscription_plan := None, generations_left := 0\<rparr>) s"

text \<open>The row that \<open>upsertSubscription\<close> builds from the purchase.\<close>

definition sb_subscriptionData :: "string \<Rightarrow> string \<Rightarrow> purchase \<Rightarrow> int \<Rightarrow> db_subscription" where
  "sb_subscriptionData d tid p now =
     \<lparr>device_id_sub = d,
      transaction_id = tid,
      original_transaction_id = str_or_null (originalTransactionIdentifierIOS p),
      product_id = str_or (productId p) ''unknown'',
      platform_sub = str_or (platform p) ''ios'',
      environment_sub = str_or_null (environmentIOS p),
      transaction_reason = or_str (transactionReasonIOS p) (reasonIOS p),
      transaction_date = num_or (transactionDate p) (num_or (purchaseDateIOS p) now),
      original_purchase_date = num_or_null (originalTransactionDateIOS p),
      expiration_date = num_or_null (expirationDateIOS p),
      renewal_date = num_or_null (renewalInfoIOS_renewalDate p),
      is_active = (case num_or_null (expirationDateIOS p) of None \<Rightarrow> True | Some e \<Rightarrow> e > now),
      is_cancelled = False,
      is_auto_renewing = bool_or_true (isAutoRenewing p),
      purchase_data = p\<rparr>"

text \<open>Whether building the row throws: \<open>toISOString\<close> on a date that is out of range.\<close>

definition sb_row_throws :: "purchase \<Rightarrow> int \<Rightarrow> bool" where
  "sb_row_throws p now =
     (\<not> valid_time (num_or (transactionDate p) (num_or (purchaseDateIOS p) now))
      \<or> (case num_or_null (originalTransactionDateIOS p) of None \<Rightarrow> False | Some t \<Rightarrow> \<not> valid_time t)
      \<or> (case num_or_null (expirationDateIOS p) of None \<Rightarrow> False | Some t \<Rightarrow> \<not> valid_time t)
      \<or> (case num_or_null (renewalInfoIOS_renewalDate p) of None \<Rightarrow> False | Some t \<Rightarrow> \<not> valid_time t))"

text \<open>
  The transaction id of a purchase, \<open>purchase.transactionId || purchase.id\<close>; \<open>None\<close> when
  the test \<open>!transactionId\<close> holds.
\<close>

definition sb_transactionId :: "purchase \<Rightarrow> string option" where
  "sb_transactionId p = str_or_null (or_str (transactionId p) (purchaseId p))"

definition sb_upsertSubscription ::
  "string \<Rightarrow> purchase \<Rightarrow> int \<Rightarrow> SupabaseAdapter \<Rightarrow> bool \<times> SupabaseAdapter" where
  "sb_upsertSubscription d p now s =
     (case sb_transactionId p of
        None \<Rightarrow> (False, s)
      | Some tid \<Rightarrow>
          if sb_row_throws p now then (False, s)
          else
            (let subscriptionData = sb_subscriptionData d tid p now;
                 (selectFailed, s1) = sb_request s;
                 existingSubscription =
                   (if selectFailed then None
                    else sb_single (filter (\<lambda>r. transaction_id r = tid) (subscriptions_table s1)));
                 (writeFailed, s2) = sb_request s1
             in case existingSubscription of
                  Some _ \<Rightarrow>
                    if writeFailed then (False, s2)
                    else (True, s2\<lparr>subscriptions_table :=
                                      map (\<lambda>r. if transaction_id r = tid then subscriptionData else r)
                                        (subscriptions_table s2)\<rparr>)
                | None \<Rightarrow>
                    if writeFailed \<or> tid \<in> set (map transaction_id (subscriptions_table s2))
                    then (False, s2)
                    else (True, s2\<lparr>subscriptions_table :=
                                      subscriptions_table s2 @ [subscriptionData]\<rparr>)))"

definition Supabase :: "SupabaseAdapter StorageAdapter" where
  "Supabase =
     \<lparr>getDeviceId = sb_getDeviceId,
      initializeUser = sb_initializeUser,
      getUserData = sb_getUserData,
      updateGenerations = sb_updateGenerations,
      updateSubscriptionPlan = sb_updateSubscriptionPlan,
      cancelSubscription = sb_cancelSubscription,
      upsertSubscription = sb_upsertSubscription\<rparr>"


section \<open>TokenManager\<close>

definition tm_getUserData :: "'s StorageAdapter \<Rightarrow> 's \<Rightarrow> UserData option \<times> 's" where
  "tm_getUserData A s = (let (d, s1) = getDeviceId A s in getUserData A d s1)"

text \<open>
  \<open>useGeneration\<close> returns its boolean, the adapter state it leaves, and the callbacks it
  fired, in order.
\<close>

definition useGeneration :: "'s StorageAdapter \<Rightarrow> TokenConfig \<Rightarrow> 's \<Rightarrow> bool \<times> 's \<times> callback list" where
  "useGeneration A cfg s =
     (let (userData, s1) = tm_getUserData A s in
      case userData of
        None \<Rightarrow> (False, s1, [])
      | Some u \<Rightarrow>
          if generationsLeft u \<le> 0 then (False, s1, [])
          else
            (let (d, s2) = getDeviceId A s1;
                 newCount = max 0 (generationsLeft u - 1);
                 (success, s3) = updateGenerations A d newCount s2
             in if success
                then (True, s3,
                      (if onGenerationUsed cfg then [GenerationUsed newCount] else []) @
                      (if newCount = 0 \<and> onLimitReached cfg
                       then [LimitReached (subscriptionPlan u = None)] else []))
                else (False, s3, [])))"

definition activateSubscription ::
  "'s StorageAdapter \<Rightarrow> TokenConfig \<Rightarrow> string \<Rightarrow> int \<Rightarrow> 's \<Rightarrow> bool \<times> 's \<times> callback list" where
  "activateSubscription A cfg plan now s =
     (let (d, s1) = getDeviceId A s;
          (success, s2) = updateSubscriptionPlan A d plan (proTierLimit cfg) now s1
      in (success, s2,
          if success \<and> onSubscriptionActivated cfg then [SubscriptionActivated] else []))"

definition tm_cancelSubscription :: "'s StorageAdapter \<Rightarrow> 's \<Rightarrow> bool \<times> 's" where
  "tm_cancelSubscription A s = (let (d, s1) = getDeviceId A s in cancelSubscription A d s1)"


section \<open>RenewalService\<close>

definition shouldRenew :: "'s StorageAdapter \<Rightarrow> string \<Rightarrow> int \<Rightarrow> 's \<Rightarrow> bool \<times> 's" where
  "shouldRenew A originalTransactionId' txDate s =
     (let (d, s1) = getDeviceId A s;
          (userData, s2) = getUserData A d s1
      in case userData of
           None \<Rightarrow> (False, s2)
         | Some u \<Rightarrow>
             if \<not> valid_time txDate then (False, s2)
             else if \<not> truthy_str (subscriptionPlan u) then (False, s2)
             else (case lastRenewalAt u of
                     None \<Rightarrow> (True, s2)
                   | Some lastRenewalDate \<Rightarrow> (txDate > lastRenewalDate, s2)))"

definition processRenewal ::
  "'s StorageAdapter \<Rightarrow> TokenConfig \<Rightarrow> string \<Rightarrow> int \<Rightarrow> 's \<Rightarrow> bool \<times> 's \<times> callback list" where
  "processRenewal A cfg plan now s =
     (let (d, s1) = getDeviceId A s;
          (success, s2) = updateSubscriptionPlan A d plan (proTierLimit cfg) now s1
      in (success, s2,
          if success \<and> onSubscriptionActivated cfg then [SubscriptionActivated] else []))"

text \<open>
  \<open>checkAndHandleRenewal\<close>. The first two tests are the \<open>RangeError\<close> of the logging lines,
  which the \<open>catch\<close> turns into \<open>false\<close> before anything is read or written.
\<close>

definition checkAndHandleRenewal ::
  "'s StorageAdapter \<Rightarrow> TokenConfig \<Rightarrow> purchase \<Rightarrow> int \<Rightarrow> 's \<Rightarrow> bool \<times> 's \<times> callback list" where
  "checkAndHandleRenewal A cfg subscription now s =
     (let txDate = num_or (transactionDate subscription)
                     (num_or (purchaseDateIOS subscription) now);
          expiration = num_or_null (expirationDateIOS subscription)
      in if \<not> valid_time txDate then (False, s, [])
         else if (case expiration of None \<Rightarrow> False | Some e \<Rightarrow> \<not> valid_time e)
           then (False, s, [])
         else if (case expiration of None \<Rightarrow> False | Some e \<Rightarrow> e \<le> now) then (False, s, [])
         else
           (case str_or_null (originalTransactionIdentifierIOS subscription) of
              None \<Rightarrow> (False, s, [])
            | Some originalTransactionId' \<Rightarrow>
                (let (needsRenewal, s1) = shouldRenew A originalTransactionId' txDate s in
                 if \<not> needsRenewal then (False, s1, [])
                 else
                   (let (d, s2) = getDeviceId A s1;
                        (subscriptionSaved, s3) = upsertSubscription A d subscription now s2
                    in processRenewal A cfg ''pro'' now s3))))"


section \<open>Notions used in the statements\<close>

text \<open>
  The condition under which \<open>checkAndHandleRenewal\<close> resets the user when the store is the
  in-memory adapter: the tests of the method and of \<open>shouldRenew\<close>, read off the stored
  user. Lemmas \<open>car_mem_skip\<close> and \<open>car_mem_renew\<close> show that the method follows it.
\<close>

definition mem_renews :: "purchase \<Rightarrow> int \<Rightarrow> InMemoryAdapter \<Rightarrow> bool" where
  "mem_renews ev now s =
     (let t = num_or (transactionDate ev) (num_or (purchaseDateIOS ev) now) in
      valid_time t \<and>
      (case num_or_null (expirationDateIOS ev) of
         None \<Rightarrow> True
       | Some e \<Rightarrow> valid_time e \<and> now < e) \<and>
      truthy_str (originalTransactionIdentifierIOS ev) \<and>
      (case users s (deviceId_mem s) of
         None \<Rightarrow> False
       | Some u \<Rightarrow> truthy_str (subscriptionPlan u) \<and>
                  (case lastRenewalAt u of None \<Rightarrow> True | Some l \<Rightarrow> l < t)))"

text \<open>The device id that the Supabase adapter answers with, and the reset of a user row.\<close>

definition sb_device :: "SupabaseAdapter \<Rightarrow> string" where
  "sb_device s = fst (sb_getDeviceId s)"

definition sb_reset :: "TokenConfig \<Rightarrow> int \<Rightarrow> db_user \<Rightarrow> db_user" where
  "sb_reset cfg now r =
     r\<lparr>subscription_plan := Some ''pro'', generations_left := proTierLimit cfg,
       last_renewal_at := Some now\<rparr>"

text \<open>
  Runs of calls. \<open>replay\<close> delivers one event again and again, at the given clock readings;
  \<open>useGeneration_times\<close> consumes \<open>n\<close> times; \<open>upsertAll\<close> files a list of purchases, each
  with its device and clock reading. Each keeps the state the call before left.
\<close>

fun replay :: "'s StorageAdapter \<Rightarrow> TokenConfig \<Rightarrow> purchase \<Rightarrow> int list \<Rightarrow> 's \<Rightarrow> 's" where
  "replay A cfg ev [] s = s"
| "replay A cfg ev (now # nows) s =
     replay A cfg ev nows (fst (snd (checkAndHandleRenewal A cfg ev now s)))"



text \<open>Whether a fired callback is \<open>onLimitReached\<close>.\<close>

fun isLimitReached :: "callback \<Rightarrow> bool" where
  "isLimitReached (LimitReached needsSubscription) = True"
| "isLimitReached other = False"

text \<open>
  A small configuration, a user, the two stores holding that user, and a renewal event, for
  the concrete runs below.
\<close>

definition demo_config :: TokenConfig where
  "demo_config = \<lparr>freeTierLimit = 5, proTierLimit = 100, onSubscriptionActivated = True,
                   onGenerationUsed = True, onLimitReached = True\<rparr>"

definition demo_user :: UserData where
  "demo_user = \<lparr>deviceId = ''device-1'', subscriptionPlan = Some ''pro'', generationsLeft = 3,
                 createdAt = 0, lastRenewalAt = Some 1000\<rparr>"

definition demo_mem :: InMemoryAdapter where
  "demo_mem = \<lparr>users = [''device-1'' \<mapsto> demo_user], subscriptions = Map.empty,
                deviceId_mem = ''device-1''\<rparr>"

definition demo_mem_balance :: "int \<Rightarrow> InMemoryAdapter" where
  "demo_mem_balance n =
     demo_mem\<lparr>users := [''device-1'' \<mapsto> demo_user\<lparr>generationsLeft := n\<rparr>]\<rparr>"

definition demo_row :: db_user where
  "demo_row = \<lparr>device_id = ''device-1'', subscription_plan = Some ''pro'', generations_left = 3,
                created_at = 0, last_renewal_at = Some 1000\<rparr>"

definition demo_sb :: SupabaseAdapter where
  "demo_sb = \<lparr>user_table = [demo_row], subscriptions_table = [], faults = [],
               cachedDeviceId = None, osBuildId = Some ''device-1'', osInternalBuildId = None,
               modelId = None\<rparr>"

definition demo_event :: purchase where
  "demo_event =
     \<lparr>transactionId = Some ''tx-1'', purchaseId = None,
      originalTransactionIdentifierIOS = Some ''orig-1'', productId = Some ''premium'',
      transactionDate = Some 5000, purchaseDateIOS = None, originalTransactionDateIOS = None,
      expirationDateIOS = Some 9000, renewalInfoIOS_renewalDate = None, isAutoRenewing = None,
      platform = None, environmentIOS = None, transactionReasonIOS = Some ''RENEWAL'',
      reasonIOS = None\<rparr>"


section \<open>The adapters behind the contract\<close>

lemmas demo_defs = demo_user_def demo_mem_def demo_event_def demo_config_def

lemmas js_defs = truthy_num_def truthy_str_def or_str_def str_or_def num_or_def
  str_or_null_def num_or_null_def bool_or_true_def valid_time_def

lemmas sb_defs = sb_getDeviceId_def sb_getUserData_def sb_request_def sb_single_def
  mapUserFromDb_def sb_update_user_def sb_updateGenerations_def sb_updateSubscriptionPlan_def
  sb_cancelSubscription_def sb_transactionId_def sb_upsertSubscription_def
  sb_subscriptionData_def sb_row_throws_def

lemmas service_defs = checkAndHandleRenewal_def shouldRenew_def processRenewal_def
  tm_cancelSubscription_def tm_getUserData_def

lemma InMemory_sel [simp]:
  "getDeviceId InMemory = mem_getDeviceId"
  "initializeUser InMemory = mem_initializeUser"
  "getUserData InMemory = mem_getUserData"
  "updateGenerations InMemory = mem_updateGenerations"
  "updateSubscriptionPlan InMemory = mem_updateSubscriptionPlan"
  "cancelSubscription InMemory = mem_cancelSubscription"
  "upsertSubscription InMemory = mem_upsertSubscription"
  by (simp_all add: InMemory_def)

lemma Supabase_sel [simp]:
  "getDeviceId Supabase = sb_getDeviceId"
  "initializeUser Supabase = sb_initializeUser"
  "getUserData Supabase = sb_getUserData"
  "updateGenerations Supabase = sb_updateGenerations"
  "updateSubscriptionPlan Supabase = sb_updateSubscriptionPlan"
  "cancelSubscription Supabase = sb_cancelSubscription"
  "upsertSubscription Supabase = sb_upsertSubscription"
  by (simp_all add: Supabase_def)

lemma demo_mem_user: "users demo_mem (deviceId_mem demo_mem) = Some demo_user"
  by (simp add: demo_mem_def)

lemma demo_mem_balance_user:
  "users (demo_mem_balance n) (deviceId_mem (demo_mem_balance n)) =
     Some (demo_user\<lparr>generationsLeft := n\<rparr>)"
  by (simp add: demo_mem_balance_def demo_mem_def)


section \<open>The renewal service on the in-memory adapter\<close>

lemma mem_upsert_frame [simp]:
  "fst (mem_upsertSubscription d p now s) = True"
  "users (snd (mem_upsertSubscription d p now s)) = users s"
  "deviceId_mem (snd (mem_upsertSubscription d p now s)) = deviceId_mem s"
  by (simp_all add: mem_upsertSubscription_def Let_def)

lemma shouldRenew_mem:
  "shouldRenew InMemory oid t s =
     ((case users s (deviceId_mem s) of
         None \<Rightarrow> False
       | Some u \<Rightarrow> valid_time t \<and> truthy_str (subscriptionPlan u) \<and>
                  (case lastRenewalAt u of None \<Rightarrow> True | Some l \<Rightarrow> l < t)), s)"
  by (simp add: shouldRenew_def mem_getDeviceId_def mem_getUserData_def split: option.splits)

lemma processRenewal_mem:
  "processRenewal InMemory cfg plan now s =
     (case users s (deviceId_mem s) of
        None \<Rightarrow> (False, s, [])
      | Some u \<Rightarrow>
          (True,
           s\<lparr>users := (users s)(deviceId_mem s \<mapsto>
                u\<lparr>subscriptionPlan := Some plan, generationsLeft := proTierLimit cfg,
                  lastRenewalAt := Some now\<rparr>)\<rparr>,
           if onSubscriptionActivated cfg then [SubscriptionActivated] else []))"
  by (simp add: processRenewal_def mem_getDeviceId_def mem_updateSubscriptionPlan_def
      split: option.splits)

lemma car_mem_skip:
  "\<not> mem_renews ev now s \<Longrightarrow> checkAndHandleRenewal InMemory cfg ev now s = (False, s, [])"
  by (auto simp: checkAndHandleRenewal_def mem_renews_def shouldRenew_mem Let_def
      str_or_null_def split: option.splits if_splits)

lemma mem_renews_user:
  assumes "mem_renews ev now s"
  obtains u where "users s (deviceId_mem s) = Some u"
  using assms by (auto simp: mem_renews_def Let_def split: option.splits)

lemma car_mem_renew:
  assumes "mem_renews ev now s" and "users s (deviceId_mem s) = Some u"
  shows "checkAndHandleRenewal InMemory cfg ev now s =
     (True,
      (snd (mem_upsertSubscription (deviceId_mem s) ev now s))
        \<lparr>users := (users s)(deviceId_mem s \<mapsto>
            u\<lparr>subscriptionPlan := Some ''pro'', generationsLeft := proTierLimit cfg,
              lastRenewalAt := Some now\<rparr>)\<rparr>,
      if onSubscriptionActivated cfg then [SubscriptionActivated] else [])"
proof -
  let ?t = "num_or (transactionDate ev) (num_or (purchaseDateIOS ev) now)"
  obtain oid where oid: "str_or_null (originalTransactionIdentifierIOS ev) = Some oid"
    using assms(1)
    by (auto simp: mem_renews_def Let_def str_or_null_def truthy_str_def split: option.splits)
  have needs: "shouldRenew InMemory oid ?t s = (True, s)"
    using assms by (auto simp: shouldRenew_mem mem_renews_def Let_def split: option.splits)
  have guards: "valid_time ?t"
    "\<not> (case num_or_null (expirationDateIOS ev) of None \<Rightarrow> False | Some e \<Rightarrow> \<not> valid_time e)"
    "\<not> (case num_or_null (expirationDateIOS ev) of None \<Rightarrow> False | Some e \<Rightarrow> e \<le> now)"
    using assms(1) by (auto simp: mem_renews_def Let_def split: option.splits)
  show ?thesis
    using assms(2)
    by (simp add: checkAndHandleRenewal_def Let_def guards oid needs mem_getDeviceId_def
        split_def processRenewal_mem)
qed

lemma car_mem_result: "fst (checkAndHandleRenewal InMemory cfg ev now s) = mem_renews ev now s"
proof (cases "mem_renews ev now s")
  case True
  then obtain u where "users s (deviceId_mem s) = Some u" by (rule mem_renews_user)
  with True show ?thesis by (simp add: car_mem_renew)
next
  case False
  then show ?thesis by (simp add: car_mem_skip)
qed


lemma demo_renews_2000: "mem_renews demo_event 2000 demo_mem"
  by (simp add: mem_renews_def demo_defs js_defs)

text \<open>
  Once an event has been handled at a clock reading that is not before its transaction
  date, handling it again later does nothing: a replay of the event leaves what the first
  delivery left.
\<close>

lemma replay_after_processing_is_noop:
  assumes "transactionDate ev = Some t" and "t \<noteq> 0" and "t \<le> now1" and "now1 \<le> now2"
  shows "\<not> mem_renews ev now2 (fst (snd (checkAndHandleRenewal InMemory cfg ev now1 s)))"
proof (cases "mem_renews ev now1 s")
  case True
  then obtain u where u: "users s (deviceId_mem s) = Some u" by (rule mem_renews_user)
  have t: "num_or (transactionDate ev) (num_or (purchaseDateIOS ev) now2) = t"
    using assms(1,2) by (simp add: num_or_def)
  show ?thesis
    using assms(3) by (simp add: car_mem_renew [OF True u] mem_renews_def t)
next
  case False
  have "\<not> mem_renews ev now2 s"
    using False assms by (auto simp: mem_renews_def num_or_def split: option.splits)
  with False show ?thesis by (simp add: car_mem_skip)
qed

lemma replay_idempotent:
  assumes "transactionDate ev = Some t" and "t \<noteq> 0" and "t \<le> now1"
    and "sorted (now1 # nows)"
  shows "replay InMemory cfg ev (now1 # nows) s = replay InMemory cfg ev [now1] s"
proof -
  have "\<forall>n \<in> set nows. now1 \<le> n \<Longrightarrow>
      replay InMemory cfg ev nows (fst (snd (checkAndHandleRenewal InMemory cfg ev now1 s)))
        = fst (snd (checkAndHandleRenewal InMemory cfg ev now1 s))"
  proof (induction nows)
    case Nil
    then show ?case by simp
  next
    case (Cons n ns)
    have "\<not> mem_renews ev n (fst (snd (checkAndHandleRenewal InMemory cfg ev now1 s)))"
      using replay_after_processing_is_noop [OF assms(1,2,3), of n cfg s] Cons.prems by simp
    then show ?case using Cons by (simp add: car_mem_skip)
  qed
  with assms(4) show ?thesis by simp
qed


section \<open>The renewal service on the Supabase adapter\<close>

lemma str_or_nonempty: "d \<noteq> [] \<Longrightarrow> str_or a d \<noteq> []"
  by (simp add: str_or_def split: option.splits)

lemma sb_getDeviceId_frame:
  "user_table (snd (sb_getDeviceId s)) = user_table s"
  "subscriptions_table (snd (sb_getDeviceId s)) = subscriptions_table s"
  "faults (snd (sb_getDeviceId s)) = faults s"
  by (simp_all add: sb_getDeviceId_def Let_def)

lemma sb_getDeviceId_device: "sb_device (snd (sb_getDeviceId s)) = sb_device s"
  by (simp add: sb_device_def sb_getDeviceId_def Let_def truthy_str_def str_or_nonempty)
     (simp add: str_or_def)

lemma sb_device_cong:
  assumes "cachedDeviceId s' = cachedDeviceId s" and "osBuildId s' = osBuildId s"
    and "osInternalBuildId s' = osInternalBuildId s" and "modelId s' = modelId s"
  shows "sb_device s' = sb_device s"
  using assms by (simp add: sb_device_def sb_getDeviceId_def Let_def)

lemma sb_request_frame:
  "user_table (snd (sb_request s)) = user_table s"
  "subscriptions_table (snd (sb_request s)) = subscriptions_table s"
  "cachedDeviceId (snd (sb_request s)) = cachedDeviceId s"
  "osBuildId (snd (sb_request s)) = osBuildId s"
  "osInternalBuildId (snd (sb_request s)) = osInternalBuildId s"
  "modelId (snd (sb_request s)) = modelId s"
  by (simp_all add: sb_request_def split: list.splits)

lemma sb_request_device: "sb_device (snd (sb_request s)) = sb_device s"
  by (rule sb_device_cong) (simp_all add: sb_request_frame)

lemma sb_getUserData_frame:
  "user_table (snd (sb_getUserData d s)) = user_table s"
  "subscriptions_table (snd (sb_getUserData d s)) = subscriptions_table s"
  "sb_device (snd (sb_getUserData d s)) = sb_device s"
  by (simp_all add: sb_getUserData_def split_def Let_def sb_request_frame sb_request_device
      split: option.splits)

lemma sb_upsert_frame:
  "user_table (snd (sb_upsertSubscription d p now s)) = user_table s"
  "sb_device (snd (sb_upsertSubscription d p now s)) = sb_device s"
proof -
  show "user_table (snd (sb_upsertSubscription d p now s)) = user_table s"
    by (simp add: sb_upsertSubscription_def split_def Let_def sb_request_frame
        split: option.splits)
  have "cachedDeviceId (snd (sb_upsertSubscription d p now s)) = cachedDeviceId s"
    "osBuildId (snd (sb_upsertSubscription d p now s)) = osBuildId s"
    "osInternalBuildId (snd (sb_upsertSubscription d p now s)) = osInternalBuildId s"
    "modelId (snd (sb_upsertSubscription d p now s)) = modelId s"
    by (simp_all add: sb_upsertSubscription_def split_def Let_def sb_request_frame
        split: option.splits)
  then show "sb_device (snd (sb_upsertSubscription d p now s)) = sb_device s"
    by (rule sb_device_cong)
qed

lemma shouldRenew_sb_frame:
  "user_table (snd (shouldRenew Supabase oid t s)) = user_table s"
  "sb_device (snd (shouldRenew Supabase oid t s)) = sb_device s"
  by (simp_all add: shouldRenew_def split_def Let_def sb_getUserData_frame sb_getDeviceId_frame
      sb_getDeviceId_device split: option.splits)

lemma processRenewal_sb_users:
  "user_table (fst (snd (processRenewal Supabase cfg ''pro'' now s))) =
     (if fst (processRenewal Supabase cfg ''pro'' now s)
      then map (\<lambda>r. if device_id r = sb_device s then sb_reset cfg now r else r) (user_table s)
      else user_table s)"
  by (simp add: processRenewal_def split_def Let_def sb_updateSubscriptionPlan_def
      sb_update_user_def sb_request_frame sb_getDeviceId_frame sb_reset_def sb_device_def)

lemma car_sb_users:
  "user_table (fst (snd (checkAndHandleRenewal Supabase cfg ev now s))) =
     (if fst (checkAndHandleRenewal Supabase cfg ev now s)
      then map (\<lambda>r. if device_id r = sb_device s then sb_reset cfg now r else r) (user_table s)
      else user_table s)"
  by (simp add: checkAndHandleRenewal_def Let_def split_def processRenewal_sb_users
      sb_upsert_frame sb_getDeviceId_frame sb_getDeviceId_device shouldRenew_sb_frame
      split: option.splits)



section \<open>The token manager on the two adapters\<close>

lemma useGeneration_mem:
  "useGeneration InMemory cfg s =
     (case users s (deviceId_mem s) of
        None \<Rightarrow> (False, s, [])
      | Some u \<Rightarrow>
          if generationsLeft u \<le> 0 then (False, s, [])
          else (True,
                s\<lparr>users := (users s)(deviceId_mem s \<mapsto> u\<lparr>generationsLeft := generationsLeft u - 1\<rparr>)\<rparr>,
                (if onGenerationUsed cfg then [GenerationUsed (generationsLeft u - 1)] else []) @
                (if generationsLeft u = 1 \<and> onLimitReached cfg
                 then [LimitReached (subscriptionPlan u = None)] else [])))"
  by (auto simp: useGeneration_def tm_getUserData_def mem_getDeviceId_def mem_getUserData_def
      mem_updateGenerations_def Let_def split: option.splits)





text \<open>What \<open>cancelSubscription\<close> writes in each adapter.\<close>

lemma cancelSubscription_mem_frame:
  assumes "users s d = Some u"
  shows "mem_cancelSubscription d s =
           (True, s\<lparr>users := (users s)(d \<mapsto> u\<lparr>subscriptionPlan := None\<rparr>)\<rparr>)"
  using assms by (simp add: mem_cancelSubscription_def)

lemma cancelSubscription_sb_zeroes:
  assumes "fst (sb_cancelSubscription d s)"
  shows "user_table (snd (sb_cancelSubscription d s)) =
     map (\<lambda>r. if device_id r = d then r\<lparr>subscription_plan := None, generations_left := 0\<rparr> else r)
       (user_table s)"
  using assms
  by (simp add: sb_cancelSubscription_def sb_update_user_def split_def Let_def sb_request_frame
      split: if_splits)


section \<open>Filing purchases\<close>





lemma mem_subscriptionData_id [simp]:
  "transactionId_sd (mem_subscriptionData p now) = mem_transactionId p now"
  by (simp add: mem_subscriptionData_def)






lemma sb_subscriptionData_id [simp]: "transaction_id (sb_subscriptionData d tid p now) = tid"
  by (simp add: sb_subscriptionData_def)






section \<open>Replaying an event\<close>

text \<open>
  Claim C1 does not hold of the code. \<open>updateSubscriptionPlan\<close> stamps \<open>lastRenewalAt\<close> with
  the clock, and \<open>shouldRenew\<close> compares the event's \<open>transactionDate\<close> with that stamp. An
  event dated later than the device's clock (here 5000, delivered at 2000 and again at 3000)
  is therefore renewed at every delivery: both calls return true, and \<open>lastRenewalAt\<close> after
  the second delivery is not what it was after the first. Lemma \<open>replay_idempotent\<close> above
  is the part of the claim that holds: replays are without effect once the event has been
  handled at a clock reading that is not before its transaction date.
\<close>

theorem replayed_future_event_resets_again:
  "fst (checkAndHandleRenewal InMemory demo_config demo_event 2000 demo_mem) \<and>
   fst (checkAndHandleRenewal InMemory demo_config demo_event 3000
          (fst (snd (checkAndHandleRenewal InMemory demo_config demo_event 2000 demo_mem)))) \<and>
   map_option lastRenewalAt (users (replay InMemory demo_config demo_event [2000] demo_mem)
                               ''device-1'') = Some (Some 2000) \<and>
   map_option lastRenewalAt (users (replay InMemory demo_config demo_event [2000, 3000] demo_mem)
                               ''device-1'') = Some (Some 3000)"
proof -
  let ?s1 = "fst (snd (checkAndHandleRenewal InMemory demo_config demo_event 2000 demo_mem))"
  have u1: "users ?s1 (deviceId_mem ?s1) =
      Some (demo_user\<lparr>subscriptionPlan := Some ''pro'', generationsLeft := 100,
                      lastRenewalAt := Some 2000\<rparr>)"
    by (simp add: car_mem_renew [OF demo_renews_2000 demo_mem_user]) (simp add: demo_defs)
  have r2: "mem_renews demo_event 3000 ?s1"
    using u1 by (simp add: mem_renews_def) (simp add: demo_defs js_defs)
  have d1: "deviceId_mem ?s1 = ''device-1''"
    by (simp add: car_mem_renew [OF demo_renews_2000 demo_mem_user]) (simp add: demo_defs)
  show ?thesis
    using u1 d1
    by (simp add: car_mem_result demo_renews_2000 r2 car_mem_renew [OF r2 u1])
qed


section \<open>The renewal decision\<close>

text \<open>
  Claim C2. \<open>shouldRenew\<close> answers from the user record that the store returns for the
  device. For a transaction date that is a time value (epoch milliseconds a \<open>Date\<close> can
  hold), it returns true exactly when there is a record, its \<open>subscriptionPlan\<close> is neither
  null nor empty, and its \<open>lastRenewalAt\<close> is null or strictly earlier than the transaction
  date. So a date equal to \<open>lastRenewalAt\<close> gives false, and so does an absent record or a
  null or empty plan. This holds for every adapter.
\<close>

theorem shouldRenew_iff:
  assumes "getDeviceId A s = (d, s1)" and "getUserData A d s1 = (stored, s2)"
    and "valid_time txDate"
  shows "fst (shouldRenew A oid txDate s) \<longleftrightarrow>
         (\<exists>u. stored = Some u \<and> truthy_str (subscriptionPlan u) \<and>
              (lastRenewalAt u = None \<or> (\<exists>l. lastRenewalAt u = Some l \<and> l < txDate)))"
  using assms by (auto simp: shouldRenew_def split: option.splits)

theorem shouldRenew_iff_witness:
  "getDeviceId InMemory demo_mem = (''device-1'', demo_mem) \<and>
   getUserData InMemory ''device-1'' demo_mem = (Some demo_user, demo_mem) \<and>
   valid_time 1000 \<and> valid_time 1001 \<and>
   \<not> fst (shouldRenew InMemory ''orig-1'' 1000 demo_mem) \<and>
   fst (shouldRenew InMemory ''orig-1'' 1001 demo_mem)"
proof -
  have d: "getDeviceId InMemory demo_mem = (''device-1'', demo_mem)"
    by (simp add: mem_getDeviceId_def demo_mem_def)
  have u: "getUserData InMemory ''device-1'' demo_mem = (Some demo_user, demo_mem)"
    by (simp add: mem_getUserData_def demo_mem_def)
  have v: "valid_time 1000" "valid_time 1001" by (simp_all add: valid_time_def)
  show ?thesis
    using shouldRenew_iff [OF d u v(1), of "''orig-1''"]
      shouldRenew_iff [OF d u v(2), of "''orig-1''"] d u v
    by (simp add: demo_user_def truthy_str_def)
qed


section \<open>The two writes of a renewal\<close>





section \<open>Events without a timestamp\<close>





section \<open>Cancelling\<close>

text \<open>
  Claim C5 does not hold of the code: the two adapters disagree. On the same user (plan
  \<open>'pro'\<close>, 3 credits) \<open>cancelSubscription\<close> of the in-memory adapter clears the plan and
  leaves the 3 credits, as the claim and the interface's comment say, while the Supabase
  adapter clears the plan and writes \<open>generations_left: 0\<close>. Lemmas
  \<open>cancelSubscription_mem_frame\<close> and \<open>cancelSubscription_sb_zeroes\<close> above give the two
  writes for every user.
\<close>

theorem cancelSubscription_adapters_disagree:
  "fst (tm_cancelSubscription InMemory demo_mem) \<and>
   map_option subscriptionPlan (users (snd (tm_cancelSubscription InMemory demo_mem)) ''device-1'')
     = Some None \<and>
   map_option generationsLeft (users (snd (tm_cancelSubscription InMemory demo_mem)) ''device-1'')
     = Some 3 \<and>
   fst (tm_cancelSubscription Supabase demo_sb) \<and>
   map subscription_plan (user_table (snd (tm_cancelSubscription Supabase demo_sb))) = [None] \<and>
   map generations_left (user_table demo_sb) = [3] \<and>
   map generations_left (user_table (snd (tm_cancelSubscription Supabase demo_sb))) = [0]"
  by (simp add: service_defs sb_defs mem_getDeviceId_def mem_cancelSubscription_def
      demo_sb_def demo_row_def demo_defs js_defs Let_def split_def)


section \<open>Expired events\<close>

text \<open>
  Claim C6, as the code has it. The liveness test is \<open>!expirationDate || expirationDate > now\<close>,
  so an expiration date of \<open>0\<close> counts as no expiration date. For every event whose
  \<open>expirationDateIOS\<close> is present, not \<open>0\<close>, and at or before the current time,
  \<open>checkAndHandleRenewal\<close> returns false, leaves the store as it was and fires no callback,
  whatever the other fields, the stored user and the adapter are.
\<close>

theorem expired_event_is_skipped:
  assumes "expirationDateIOS ev = Some e" and "e \<noteq> 0" and "e \<le> now"
  shows "checkAndHandleRenewal A cfg ev now s = (False, s, [])"
  using assms by (simp add: checkAndHandleRenewal_def num_or_null_def truthy_num_def Let_def)

theorem expired_event_is_skipped_witness:
  "expirationDateIOS demo_event = Some 9000 \<and> (9000::int) \<noteq> 0 \<and> (9000::int) \<le> 9000 \<and>
   checkAndHandleRenewal InMemory demo_config demo_event 9000 demo_mem = (False, demo_mem, [])"
proof -
  have e: "expirationDateIOS demo_event = Some 9000" by (simp add: demo_event_def)
  show ?thesis
    using expired_event_is_skipped [OF e, of 9000 InMemory demo_config demo_mem] e by simp
qed

text \<open>
  The claim as stated fails for an expiration date of \<open>0\<close>: the date is present and before
  the current time \<open>2000\<close>, and the user is reset from 3 credits to 100.
\<close>

theorem expiration_zero_counterexample:
  "expirationDateIOS (demo_event\<lparr>expirationDateIOS := Some 0\<rparr>) = Some 0 \<and> (0::int) \<le> 2000 \<and>
   fst (checkAndHandleRenewal InMemory demo_config (demo_event\<lparr>expirationDateIOS := Some 0\<rparr>)
          2000 demo_mem) \<and>
   map_option generationsLeft (users demo_mem ''device-1'') = Some 3 \<and>
   map_option generationsLeft
     (users (fst (snd (checkAndHandleRenewal InMemory demo_config
                         (demo_event\<lparr>expirationDateIOS := Some 0\<rparr>) 2000 demo_mem)))
        ''device-1'') = Some 100"
proof -
  have r: "mem_renews (demo_event\<lparr>expirationDateIOS := Some 0\<rparr>) 2000 demo_mem"
    by (simp add: mem_renews_def demo_defs js_defs)
  show ?thesis
    by (simp add: car_mem_renew [OF r demo_mem_user]) (simp add: demo_defs)
qed


section \<open>Consuming credits\<close>




section \<open>The limit-reached callback\<close>

text \<open>
  Claim C8. With \<open>onLimitReached\<close> configured, a call of \<open>useGeneration\<close> fires it once
  when the call succeeds and the balance before it was 1 (so that it is 0 afterwards), and
  not at all otherwise. After such a call the next one fails, changes nothing and fires
  nothing.
\<close>

theorem limit_callback_edge_triggered:
  assumes "onLimitReached cfg"
  shows "length (filter isLimitReached (snd (snd (useGeneration InMemory cfg s)))) =
           (if fst (useGeneration InMemory cfg s) \<and>
               (\<exists>u. users s (deviceId_mem s) = Some u \<and> generationsLeft u = 1)
            then 1 else 0)
     \<and> ((\<exists>u. users s (deviceId_mem s) = Some u \<and> generationsLeft u = 1) \<longrightarrow>
          (\<exists>u'. users (fst (snd (useGeneration InMemory cfg s))) (deviceId_mem s) = Some u' \<and>
                generationsLeft u' = 0) \<and>
          useGeneration InMemory cfg (fst (snd (useGeneration InMemory cfg s))) =
            (False, fst (snd (useGeneration InMemory cfg s)), []))"
  using assms by (auto simp: useGeneration_mem split: option.splits)

theorem limit_callback_edge_triggered_witness:
  "onLimitReached demo_config \<and>
   snd (snd (useGeneration InMemory demo_config (demo_mem_balance 2))) = [GenerationUsed 1] \<and>
   snd (snd (useGeneration InMemory demo_config (demo_mem_balance 1)))
     = [GenerationUsed 0, LimitReached False] \<and>
   length (filter isLimitReached (snd (snd (useGeneration InMemory demo_config (demo_mem_balance 1)))))
     = 1 \<and>
   useGeneration InMemory demo_config
       (fst (snd (useGeneration InMemory demo_config (demo_mem_balance 1))))
     = (False, fst (snd (useGeneration InMemory demo_config (demo_mem_balance 1))), [])"
proof -
  have c: "onLimitReached demo_config" by (simp add: demo_config_def)
  have e: "snd (snd (useGeneration InMemory demo_config (demo_mem_balance 2))) = [GenerationUsed 1]"
    "snd (snd (useGeneration InMemory demo_config (demo_mem_balance 1)))
       = [GenerationUsed 0, LimitReached False]"
    by (simp_all add: useGeneration_mem demo_mem_balance_user) (simp_all add: demo_defs)
  show ?thesis
    using limit_callback_edge_triggered [OF c, where s = "demo_mem_balance 1"] c e
    by (simp add: demo_mem_balance_user)
qed


section \<open>One record per transaction\<close>




section \<open>What a renewal writes\<close>

text \<open>
  Claim C10. Whenever \<open>checkAndHandleRenewal\<close> renews (returns true), the user of the
  device has the plan \<open>'pro'\<close> and \<open>proTierLimit\<close> credits afterwards, whatever the event's
  \<open>productId\<close> and the plan stored before: in the in-memory store the user record, in the
  Supabase store every row of the device.
\<close>

theorem renewal_sets_pro_and_limit:
  "(fst (checkAndHandleRenewal InMemory cfg ev now s) \<longrightarrow>
      (\<exists>u. users (fst (snd (checkAndHandleRenewal InMemory cfg ev now s))) (deviceId_mem s) = Some u
           \<and> subscriptionPlan u = Some ''pro'' \<and> generationsLeft u = proTierLimit cfg))
   \<and> (fst (checkAndHandleRenewal Supabase cfg ev now sb) \<longrightarrow>
      (\<forall>r \<in> set (user_table (fst (snd (checkAndHandleRenewal Supabase cfg ev now sb)))).
          device_id r = sb_device sb \<longrightarrow>
          subscription_plan r = Some ''pro'' \<and> generations_left r = proTierLimit cfg))"
proof (intro conjI impI)
  assume "fst (checkAndHandleRenewal InMemory cfg ev now s)"
  then have r: "mem_renews ev now s" by (simp add: car_mem_result)
  then obtain u where u: "users s (deviceId_mem s) = Some u" by (rule mem_renews_user)
  show "\<exists>u. users (fst (snd (checkAndHandleRenewal InMemory cfg ev now s))) (deviceId_mem s) = Some u
           \<and> subscriptionPlan u = Some ''pro'' \<and> generationsLeft u = proTierLimit cfg"
    by (simp add: car_mem_renew [OF r u])
next
  assume "fst (checkAndHandleRenewal Supabase cfg ev now sb)"
  then show "\<forall>r \<in> set (user_table (fst (snd (checkAndHandleRenewal Supabase cfg ev now sb)))).
          device_id r = sb_device sb \<longrightarrow>
          subscription_plan r = Some ''pro'' \<and> generations_left r = proTierLimit cfg"
    by (auto simp: car_sb_users sb_reset_def split: if_splits)
qed

theorem renewal_sets_pro_and_limit_witness:
  "fst (checkAndHandleRenewal InMemory demo_config demo_event 2000 demo_mem) \<and>
   productId demo_event = Some ''premium'' \<and>
   (\<exists>u. users (fst (snd (checkAndHandleRenewal InMemory demo_config demo_event 2000 demo_mem)))
          (deviceId_mem demo_mem) = Some u
        \<and> subscriptionPlan u = Some ''pro'' \<and> generationsLeft u = 100)"
proof -
  have f: "fst (checkAndHandleRenewal InMemory demo_config demo_event 2000 demo_mem)"
    by (simp add: car_mem_result demo_renews_2000)
  have p: "proTierLimit demo_config = 100" by (simp add: demo_config_def)
  show ?thesis
    using renewal_sets_pro_and_limit [where cfg = demo_config and ev = demo_event and now = 2000
        and s = demo_mem] f p
    by (simp add: demo_event_def)
qed

end
